theory Spec2Isabelle
  imports Main "HOL-Library.Multiset"
begin

section \<open>Exceptions, documents, requests and responses\<close>

text \<open>
  The server is one module, \<^verbatim>\<open>src/server.js\<close>: an express application whose route
  handlers talk to two mongoose models (\<^verbatim>\<open>team\<close>, \<^verbatim>\<open>Post\<close>), to bcryptjs and to
  jsonwebtoken. A handler is modelled as a function from the store and the request to
  the response it sends and the store it leaves. Every \<^verbatim>\<open>throw\<close> is a value of
  \<open>exn\<close>; a \<^verbatim>\<open>try/catch\<close> is a case distinction on a sum.
\<close>

datatype exn = ReferenceError | TypeError | StoreError | ConfigError | JwtError | BcryptError

record team_doc =
  team_id :: string
  name :: string
  city :: string
  players :: string

record post =
  post_id :: string
  team :: string
  title :: string
  body :: string
  date :: int

text \<open>
  The parts of an express request the handlers read: \<^verbatim>\<open>req.team.id\<close> (attached by the
  auth middleware), \<^verbatim>\<open>req.params.id\<close> and \<^verbatim>\<open>req.body\<close>. A body is a JSON object
  whose fields are taken as strings; a field that is absent reads as \<^verbatim>\<open>undefined\<close>,
  here \<open>None\<close>.
\<close>

record request =
  req_team_id :: string
  req_params_id :: string
  req_body :: "(string \<times> string) list"

definition field :: "request \<Rightarrow> string \<Rightarrow> string option" where
  "field req k = map_of (req_body req) k"

record payload =
  payload_team_id :: "string option"

record token =
  tok_payload :: payload
  tok_iat :: int
  tok_exp :: int
  tok_key :: string

text \<open>
  What a handler sends: \<^verbatim>\<open>res.status(n).send(text)\<close>, \<^verbatim>\<open>res.status(n).json({msg})\<close>,
  \<^verbatim>\<open>res.status(n).json({errors: [{msg}, ...]})\<close>, \<^verbatim>\<open>res.json({token})\<close>,
  \<^verbatim>\<open>res.json(post)\<close>, \<^verbatim>\<open>res.json(posts)\<close>; \<^verbatim>\<open>res.json\<close> without a status is 200.
  \<open>Uncaught\<close> is an exception thrown outside every \<^verbatim>\<open>try\<close>: no response is sent.
\<close>

datatype content =
    Text string
  | Msg string
  | Errors "string list"
  | TokenBody token
  | PostBody post
  | PostsBody "post list"

datatype response = Response nat content | Uncaught exn

fun status :: "response \<Rightarrow> nat option" where
  "status (Response n c) = Some n"
| "status (Uncaught e) = None"

definition bindE :: "'e + 'a \<Rightarrow> ('a \<Rightarrow> 'e + 'b) \<Rightarrow> 'e + 'b" where
  "bindE m f = (case m of Inl e \<Rightarrow> Inl e | Inr v \<Rightarrow> f v)"

section \<open>The store\<close>

text \<open>
  Modelled from the spec: the mongoose models \<^verbatim>\<open>./models/Post\<close> and \<^verbatim>\<open>./models/team\<close> and
  the database behind them are not under src/. The spec's Credential Store persists team
  and post records and offers \<^verbatim>\<open>findById\<close>, \<^verbatim>\<open>findByName\<close>, \<^verbatim>\<open>create\<close>, \<^verbatim>\<open>save\<close> and
  \<^verbatim>\<open>delete\<close>; a store failure surfaces as an exception of the awaited call. The store
  is the list of its documents; \<open>connected\<close> says whether its calls answer or reject.
\<close>

record db =
  posts :: "post list"
  teams :: "team_doc list"
  connected :: bool

definition Post_findById :: "db \<Rightarrow> string \<Rightarrow> exn + post option" where
  "Post_findById d i =
     (if connected d then Inr (find (\<lambda>p. post_id p = i) (posts d)) else Inl StoreError)"

text \<open>\<^verbatim>\<open>Post.find().sort({ date: -1 })\<close>: every post, latest date first.\<close>

definition Post_find_sort_date_desc :: "db \<Rightarrow> exn + post list" where
  "Post_find_sort_date_desc d =
     (if connected d then Inr (rev (sort_key date (posts d))) else Inl StoreError)"

definition post_remove :: "post \<Rightarrow> db \<Rightarrow> exn + db" where
  "post_remove p d =
     (if connected d
      then Inr (d\<lparr>posts := filter (\<lambda>q. post_id q \<noteq> post_id p) (posts d)\<rparr>)
      else Inl StoreError)"

text \<open>\<^verbatim>\<open>post.save()\<close> of a document that was read from the store writes it back under its id.\<close>

definition post_save :: "post \<Rightarrow> db \<Rightarrow> exn + db" where
  "post_save p d =
     (if connected d
      then Inr (d\<lparr>posts := map (\<lambda>q. if post_id q = post_id p then p else q) (posts d)\<rparr>)
      else Inl StoreError)"

text \<open>Document ids are unique in a collection.\<close>

definition unique_ids :: "db \<Rightarrow> bool" where
  "unique_ids d = distinct (map post_id (posts d))"

section \<open>Post handlers\<close>

text \<open>\<^verbatim>\<open>GET /api/posts\<close> (lines 215-224).\<close>

definition get_posts_handler :: "db \<Rightarrow> request \<Rightarrow> response" where
  "get_posts_handler d req =
     (case Post_find_sort_date_desc d of
        Inl e \<Rightarrow> Response 500 (Text ''Server error'')
      | Inr ps \<Rightarrow> Response 200 (PostsBody ps))"

text \<open>\<^verbatim>\<open>GET /api/posts/:id\<close> (lines 230-244).\<close>

definition get_post_handler :: "db \<Rightarrow> request \<Rightarrow> response" where
  "get_post_handler d req =
     (case Post_findById d (req_params_id req) of
        Inl e \<Rightarrow> Response 500 (Text ''Server error'')
      | Inr None \<Rightarrow> Response 404 (Msg ''Post not found'')
      | Inr (Some p) \<Rightarrow> Response 200 (PostBody p))"

text \<open>
  \<^verbatim>\<open>DELETE /api/posts/:id\<close> (lines 250-271): look the post up, answer 404 when there is
  none, 401 when \<^verbatim>\<open>post.team.toString() !== req.team.id\<close>, otherwise remove it.
\<close>

definition delete_handler :: "db \<Rightarrow> request \<Rightarrow> response \<times> db" where
  "delete_handler d req =
     (case Post_findById d (req_params_id req) of
        Inl e \<Rightarrow> (Response 500 (Text ''Server error''), d)
      | Inr None \<Rightarrow> (Response 404 (Msg ''Post not found''), d)
      | Inr (Some p) \<Rightarrow>
          if team p \<noteq> req_team_id req
          then (Response 401 (Msg ''team not authorized''), d)
          else (case post_remove p d of
                  Inl e \<Rightarrow> (Response 500 (Text ''Server error''), d)
                | Inr d' \<Rightarrow> (Response 200 (Msg ''Post removed''), d')))"

text \<open>
  JavaScript's \<^verbatim>\<open>a || b\<close> on a request field: \<^verbatim>\<open>undefined\<close> and the empty string are
  falsy, every other string is truthy.
\<close>

definition js_or :: "string option \<Rightarrow> string \<Rightarrow> string" where
  "js_or a b = (case a of None \<Rightarrow> b | Some s \<Rightarrow> if s = [] then b else s)"

text \<open>
  \<^verbatim>\<open>PUT /api/posts/:id\<close> (lines 277-303): the same two checks with the message
  \<^verbatim>\<open>User not authorized\<close>, then \<^verbatim>\<open>post.title = title || post.title\<close>,
  \<^verbatim>\<open>post.body = body || post.body\<close>, save and send the post.
\<close>

definition update_handler :: "db \<Rightarrow> request \<Rightarrow> response \<times> db" where
  "update_handler d req =
     (case Post_findById d (req_params_id req) of
        Inl e \<Rightarrow> (Response 500 (Text ''Server error''), d)
      | Inr None \<Rightarrow> (Response 404 (Msg ''Post not found''), d)
      | Inr (Some p) \<Rightarrow>
          if team p \<noteq> req_team_id req
          then (Response 401 (Msg ''User not authorized''), d)
          else (let p' = p\<lparr>title := js_or (field req ''title'') (title p),
                             body := js_or (field req ''body'') (body p)\<rparr>
                in case post_save p' d of
                     Inl e \<Rightarrow> (Response 500 (Text ''Server error''), d)
                   | Inr d' \<Rightarrow> (Response 200 (PostBody p'), d')))"

section \<open>The validation layer\<close>

text \<open>
  The route definitions build express-validator chains when the module is loaded:
  \<^verbatim>\<open>check(field, message).not().isEmpty()\<close> and so on. A chain offers the validators of
  the library (\<^verbatim>\<open>isEmpty\<close>, \<^verbatim>\<open>isLength\<close>, \<^verbatim>\<open>exists\<close>) and the modifier \<^verbatim>\<open>not\<close>;
  calling a method it does not have (\<^verbatim>\<open>isCity\<close>, \<^verbatim>\<open>NotValid\<close>) is a call of
  \<^verbatim>\<open>undefined\<close>, a TypeError. The validators see the field as a string, \<^verbatim>\<open>undefined\<close>
  as the empty one: \<^verbatim>\<open>isEmpty\<close> holds of the empty string, \<^verbatim>\<open>isLength({min})\<close> of a
  string of at least \<^verbatim>\<open>min\<close> characters, \<^verbatim>\<open>exists\<close> of a field that is not
  \<^verbatim>\<open>undefined\<close>. \<^verbatim>\<open>validationResult(req)\<close> holds the message of every validator that
  failed.
\<close>

datatype chain_call = M_not | M_isEmpty | M_isLength nat | M_exists | M_isCity | M_NotValid

datatype vkind = IsEmpty | IsLength nat | Exists

type_synonym validator = "bool \<times> vkind"

fun build_chain :: "bool \<Rightarrow> chain_call list \<Rightarrow> exn + validator list" where
  "build_chain neg [] = Inr []"
| "build_chain neg (M_not # ms) = build_chain (\<not> neg) ms"
| "build_chain neg (M_isEmpty # ms) =
     bindE (build_chain False ms) (\<lambda>vs. Inr ((neg, IsEmpty) # vs))"
| "build_chain neg (M_isLength n # ms) =
     bindE (build_chain False ms) (\<lambda>vs. Inr ((neg, IsLength n) # vs))"
| "build_chain neg (M_exists # ms) =
     bindE (build_chain False ms) (\<lambda>vs. Inr ((neg, Exists) # vs))"
| "build_chain neg (M_isCity # ms) = Inl TypeError"
| "build_chain neg (M_NotValid # ms) = Inl TypeError"

fun build_checks ::
  "(string \<times> string \<times> chain_call list) list \<Rightarrow> exn + (string \<times> string \<times> validator list) list" where
  "build_checks [] = Inr []"
| "build_checks ((f, msg, ms) # cs) =
     bindE (build_chain False ms) (\<lambda>vs.
     bindE (build_checks cs) (\<lambda>rest. Inr ((f, msg, vs) # rest)))"

definition to_str :: "string option \<Rightarrow> string" where
  "to_str v = (case v of None \<Rightarrow> [] | Some s \<Rightarrow> s)"

fun holds :: "vkind \<Rightarrow> string option \<Rightarrow> bool" where
  "holds IsEmpty v = (to_str v = [])"
| "holds (IsLength m) v = (m \<le> length (to_str v))"
| "holds Exists v = (v \<noteq> None)"

definition passes :: "validator \<Rightarrow> string option \<Rightarrow> bool" where
  "passes vd v = (holds (snd vd) v \<noteq> fst vd)"

definition validationResult ::
  "(string \<times> string \<times> validator list) list \<Rightarrow> request \<Rightarrow> string list" where
  "validationResult cs req =
     concat (map (\<lambda>(f, msg, vs). map (\<lambda>v. msg) (filter (\<lambda>v. \<not> passes v (field req f)) vs)) cs)"

text \<open>The checks of \<^verbatim>\<open>POST /api/team\<close> (lines 43-52).\<close>

definition name_check :: "string \<times> string \<times> chain_call list" where
  "name_check = (''name'', ''Please enter your name of soccer team'', [M_not, M_isEmpty])"

definition city_check :: "string \<times> string \<times> chain_call list" where
  "city_check = (''city'', ''Please enter city of soccer team'', [M_isCity])"

definition players_check :: "string \<times> string \<times> chain_call list" where
  "players_check =
     (''players'', ''Please enter number of players, must be at least 13'', [M_isLength 13])"

definition team_checks :: "(string \<times> string \<times> chain_call list) list" where
  "team_checks = [name_check, city_check, players_check]"

text \<open>The checks of \<^verbatim>\<open>POST /api/registration\<close> (lines 110-113).\<close>

definition registration_checks :: "(string \<times> string \<times> chain_call list) list" where
  "registration_checks =
     [(''name'', ''Please enter other name , it already exist'', [M_exists]),
      (''players'', ''Eenter valid number of players, min 13 '', [M_NotValid])]"

section \<open>The token service\<close>

text \<open>
  What the module reads from outside itself: the signing key of the configuration
  (\<^verbatim>\<open>config.get('jwtSecret')\<close>, which throws when the key is not configured), the clock
  in seconds, the salt \<^verbatim>\<open>bcrypt.genSalt(10)\<close> draws, the id the store gives a new
  document, and the \<^verbatim>\<open>id\<close> property of the imported model \<^verbatim>\<open>team\<close>
  (\<^verbatim>\<open>undefined\<close> is \<open>None\<close>); and the two functions of bcryptjs, \<^verbatim>\<open>hash\<close> and
  \<^verbatim>\<open>compare\<close>, which the handlers take as they are.
\<close>

record env =
  jwtSecret :: "string option"
  now :: int
  genSalt :: string
  new_id :: string
  model_id :: "string option"

record bcryptjs =
  bcrypt_hash :: "string \<Rightarrow> string \<Rightarrow> string"
  bcrypt_compare :: "string \<Rightarrow> string \<Rightarrow> bool"

definition config_get :: "env \<Rightarrow> exn + string" where
  "config_get ev = (case jwtSecret ev of None \<Rightarrow> Inl ConfigError | Some k \<Rightarrow> Inr k)"

text \<open>
  jsonwebtoken reads a string \<^verbatim>\<open>expiresIn\<close> with the \<^verbatim>\<open>ms\<close> package: a number followed
  by a unit, in milliseconds. The model covers unsigned whole numbers directly followed
  by a lower-case unit; \<^verbatim>\<open>ms\<close> answers \<^verbatim>\<open>undefined\<close> on what it cannot read.
\<close>

definition is_digit :: "char \<Rightarrow> bool" where
  "is_digit c = (c \<in> set ''0123456789'')"

definition digit_val :: "char \<Rightarrow> nat" where
  "digit_val c = of_char c - 48"

definition number_of :: "string \<Rightarrow> nat" where
  "number_of ds = foldl (\<lambda>n c. 10 * n + digit_val c) 0 ds"

definition ms_unit :: "string \<Rightarrow> int option" where
  "ms_unit u =
     (if u \<in> set [''years'', ''year'', ''yrs'', ''yr'', ''y''] then Some 31557600000
      else if u \<in> set [''weeks'', ''week'', ''w''] then Some 604800000
      else if u \<in> set [''days'', ''day'', ''d''] then Some 86400000
      else if u \<in> set [''hours'', ''hour'', ''hrs'', ''hr'', ''h''] then Some 3600000
      else if u \<in> set [''minutes'', ''minute'', ''mins'', ''min'', ''m''] then Some 60000
      else if u \<in> set [''seconds'', ''second'', ''secs'', ''sec'', ''s''] then Some 1000
      else if u \<in> set [''milliseconds'', ''millisecond'', ''msecs'', ''msec'', ''ms'', []]
      then Some 1
      else None)"

definition ms :: "string \<Rightarrow> int option" where
  "ms str =
     (let ds = takeWhile is_digit str; u = dropWhile is_digit str
      in if ds = [] then None
         else (case ms_unit u of None \<Rightarrow> None | Some k \<Rightarrow> Some (int (number_of ds) * k)))"

text \<open>
  \<^verbatim>\<open>jwt.sign(payload, key, {expiresIn}, callback)\<close>: fails without a key or when
  \<^verbatim>\<open>expiresIn\<close> is no timespan; otherwise the token carries the payload, the time of
  issue \<^verbatim>\<open>iat\<close>, the expiry \<^verbatim>\<open>exp = floor(iat + ms(expiresIn) / 1000)\<close> and a signature
  under the key.
\<close>

definition jwt_sign :: "payload \<Rightarrow> string \<Rightarrow> string \<Rightarrow> int \<Rightarrow> exn + token" where
  "jwt_sign p key expiresIn iat =
     (if key = [] then Inl JwtError
      else (case ms expiresIn of
              None \<Rightarrow> Inl JwtError
            | Some m \<Rightarrow>
                Inr \<lparr>tok_payload = p, tok_iat = iat, tok_exp = iat + m div 1000, tok_key = key\<rparr>))"

text \<open>
  Modelled from the spec: the auth middleware \<^verbatim>\<open>./middleware/auth\<close>, which verifies a
  token, is not under src/. The spec's Token Service: \<^verbatim>\<open>verify\<close> fails with
  \<^verbatim>\<open>InvalidSignature\<close> if the signature does not match the configured key, fails with
  \<^verbatim>\<open>Expired\<close> if now > expiry, otherwise returns the embedded identity.
\<close>

datatype verify_error = InvalidSignature | Expired

definition jwt_verify :: "token \<Rightarrow> string \<Rightarrow> int \<Rightarrow> verify_error + payload" where
  "jwt_verify tk key t =
     (if tok_key tk \<noteq> key then Inl InvalidSignature
      else if t > tok_exp tk then Inl Expired
      else Inr (tok_payload tk))"

section \<open>Identifiers named team and user\<close>

text \<open>
  The module imports the mongoose model as \<^verbatim>\<open>team\<close>. What an identifier \<^verbatim>\<open>team\<close> or
  \<^verbatim>\<open>user\<close> can hold is the model, a team document or \<^verbatim>\<open>null\<close>. An identifier
  resolves to the nearest declaration: a \<^verbatim>\<open>let\<close> or \<^verbatim>\<open>const\<close> of a block is in scope
  in the whole block, also in its own initialiser, where it is not yet initialised and
  reading it throws a ReferenceError; so does reading an identifier that nothing declares.
\<close>

datatype teamval = TeamModel | TeamDoc team_doc | TeamNull

datatype 'a slot = TDZ | Undeclared | Holds 'a

fun read_var :: "'a slot \<Rightarrow> exn + 'a" where
  "read_var TDZ = Inl ReferenceError"
| "read_var Undeclared = Inl ReferenceError"
| "read_var (Holds v) = Inr v"

fun truthy :: "teamval \<Rightarrow> bool" where
  "truthy TeamNull = False"
| "truthy TeamModel = True"
| "truthy (TeamDoc t) = True"

text \<open>
  Modelled from the spec: the model \<^verbatim>\<open>./models/team\<close> is not under src/. The store's
  lookup by unique name and its \<^verbatim>\<open>create\<close> and \<^verbatim>\<open>save\<close> are methods of the model and of
  its documents; on any other receiver the call is a TypeError.
\<close>

fun Model_findOne :: "teamval \<Rightarrow> db \<Rightarrow> string option \<Rightarrow> exn + teamval" where
  "Model_findOne TeamModel d nm =
     (if connected d
      then Inr (case find (\<lambda>t. Some (name t) = nm) (teams d) of
                  None \<Rightarrow> TeamNull
                | Some t \<Rightarrow> TeamDoc t)
      else Inl StoreError)"
| "Model_findOne (TeamDoc t) d nm = Inl TypeError"
| "Model_findOne TeamNull d nm = Inl TypeError"

fun Model_new ::
  "teamval \<Rightarrow> env \<Rightarrow> string option \<Rightarrow> string option \<Rightarrow> string option \<Rightarrow> exn + teamval" where
  "Model_new TeamModel ev n c p =
     Inr (TeamDoc \<lparr>team_id = new_id ev, name = to_str n, city = to_str c, players = to_str p\<rparr>)"
| "Model_new (TeamDoc t) ev n c p = Inl TypeError"
| "Model_new TeamNull ev n c p = Inl TypeError"

fun doc_save :: "teamval \<Rightarrow> db \<Rightarrow> exn + db" where
  "doc_save (TeamDoc t) d =
     (if connected d then Inr (d\<lparr>teams := teams d @ [t]\<rparr>) else Inl StoreError)"
| "doc_save TeamModel d = Inl TypeError"
| "doc_save TeamNull d = Inl TypeError"

text \<open>Reading \<^verbatim>\<open>x.id\<close> and \<^verbatim>\<open>x.players\<close>, and the assignment \<^verbatim>\<open>x.players = h\<close>.\<close>

fun prop_id :: "env \<Rightarrow> teamval \<Rightarrow> exn + string option" where
  "prop_id ev TeamModel = Inr (model_id ev)"
| "prop_id ev (TeamDoc t) = Inr (Some (team_id t))"
| "prop_id ev TeamNull = Inl TypeError"

fun get_players :: "teamval \<Rightarrow> exn + string option" where
  "get_players TeamModel = Inr None"
| "get_players (TeamDoc t) = Inr (Some (players t))"
| "get_players TeamNull = Inl TypeError"

fun set_players :: "teamval \<Rightarrow> string \<Rightarrow> exn + teamval" where
  "set_players TeamModel h = Inr TeamModel"
| "set_players (TeamDoc t) h = Inr (TeamDoc (t\<lparr>players := h\<rparr>))"
| "set_players TeamNull h = Inl TypeError"

text \<open>bcryptjs rejects an argument that is not a string.\<close>

definition hash_call :: "bcryptjs \<Rightarrow> string option \<Rightarrow> string \<Rightarrow> exn + string" where
  "hash_call bc s salt =
     (case s of None \<Rightarrow> Inl BcryptError | Some x \<Rightarrow> Inr (bcrypt_hash bc x salt))"

definition compare_call :: "bcryptjs \<Rightarrow> string option \<Rightarrow> string option \<Rightarrow> exn + bool" where
  "compare_call bc s h =
     (case s of
        None \<Rightarrow> Inl BcryptError
      | Some x \<Rightarrow> (case h of None \<Rightarrow> Inl BcryptError | Some y \<Rightarrow> Inr (bcrypt_compare bc x y)))"

section \<open>Issuing a token\<close>

text \<open>
  \<^verbatim>\<open>returnToken(user, res)\<close> (lines 146-162). The payload is
  \<^verbatim>\<open>{team: {id: team.id}}\<close>: inside \<^verbatim>\<open>returnToken\<close> nothing declares \<^verbatim>\<open>team\<close>, so it
  is the module's import, the model; the parameter \<^verbatim>\<open>user\<close> is not read. The key is
  \<^verbatim>\<open>config.get('jwtSecret')\<close>, the lifetime the string \<^verbatim>\<open>'10hr'\<close>. An error of
  \<^verbatim>\<open>jwt.sign\<close> is thrown inside the callback, outside every \<^verbatim>\<open>try\<close>.
\<close>

definition returnToken :: "env \<Rightarrow> teamval \<Rightarrow> exn + response" where
  "returnToken ev user =
     bindE (prop_id ev TeamModel) (\<lambda>i.
     bindE (config_get ev) (\<lambda>key.
       case jwt_sign \<lparr>payload_team_id = i\<rparr> key ''10hr'' (now ev) of
         Inl err \<Rightarrow> Inr (Uncaught err)
       | Inr tk \<Rightarrow> Inr (Response 200 (TokenBody tk))))"

section \<open>Registration and login handlers\<close>

definition thrown_in :: "db \<Rightarrow> exn + 'a \<Rightarrow> exn \<times> db + 'a" where
  "thrown_in d m = (case m of Inl e \<Rightarrow> Inl (e, d) | Inr v \<Rightarrow> Inr v)"

text \<open>
  The \<^verbatim>\<open>try\<close> block of \<^verbatim>\<open>POST /api/team\<close> (lines 60-83), statement by statement:
  \<^verbatim>\<open>let team = await team.findOne({ name: name })\<close>, where both \<^verbatim>\<open>team\<close> are the block's
  own variable; \<^verbatim>\<open>if (team) return res.status(400)...\<close>; \<^verbatim>\<open>team = new team({...})\<close>;
  \<^verbatim>\<open>const salt = await bcrypt.genSalt(10)\<close>; \<^verbatim>\<open>user.players = await bcrypt.hash(players, salt)\<close>,
  where nothing declares \<^verbatim>\<open>user\<close>; \<^verbatim>\<open>await team.save()\<close>; \<^verbatim>\<open>returnToken(user, res)\<close>.
  An exception carries the store as it is when thrown. (A transpiler that turns the
  \<^verbatim>\<open>let\<close> into a \<^verbatim>\<open>var\<close> makes the first read \<^verbatim>\<open>undefined\<close> and the call on it a
  TypeError; the \<^verbatim>\<open>catch\<close> answers every exception alike.)
\<close>

definition register_try :: "env \<Rightarrow> bcryptjs \<Rightarrow> db \<Rightarrow> request \<Rightarrow> exn \<times> db + response \<times> db" where
  "register_try ev bc d req =
     (let nm = field req ''name''; c = field req ''city''; p = field req ''players'' in
      bindE (thrown_in d (read_var (TDZ :: teamval slot))) (\<lambda>team0.
      bindE (thrown_in d (Model_findOne team0 d nm)) (\<lambda>team1.
        if truthy team1 then Inr (Response 400 (Errors [''try again'']), d)
        else
          bindE (thrown_in d (Model_new team1 ev nm c p)) (\<lambda>team2.
          bindE (thrown_in d (read_var (Undeclared :: teamval slot))) (\<lambda>user.
          bindE (thrown_in d (hash_call bc p (genSalt ev))) (\<lambda>h.
          bindE (thrown_in d (set_players user h)) (\<lambda>user'.
          bindE (thrown_in d (doc_save team2 d)) (\<lambda>d'.
          bindE (thrown_in d' (returnToken ev user')) (\<lambda>res. Inr (res, d'))))))))))"

text \<open>
  The handler of \<^verbatim>\<open>POST /api/team\<close> (lines 53-88): 422 with the validation errors when
  there are any; otherwise the \<^verbatim>\<open>try\<close> block, whose exceptions the \<^verbatim>\<open>catch\<close> answers
  with 500 \<^verbatim>\<open>Server error\<close>.
\<close>

definition register_handler :: "env \<Rightarrow> bcryptjs \<Rightarrow> db \<Rightarrow> string list \<Rightarrow> request \<Rightarrow> response \<times> db" where
  "register_handler ev bc d errors req =
     (if errors \<noteq> [] then (Response 422 (Errors errors), d)
      else (case register_try ev bc d req of
              Inl (e, d') \<Rightarrow> (Response 500 (Text ''Server error''), d')
            | Inr r \<Rightarrow> r))"

text \<open>
  The \<^verbatim>\<open>try\<close> block of \<^verbatim>\<open>POST /api/registration\<close>, the login (lines 121-138):
  \<^verbatim>\<open>let team = await team.findOne({ name: name })\<close>; \<^verbatim>\<open>if (!team) return res.status(400)...\<close>;
  \<^verbatim>\<open>const match = await bcrypt.compare(players, user.players)\<close>;
  \<^verbatim>\<open>if (!match) return res.status(400)...\<close>; \<^verbatim>\<open>returnToken(user, res)\<close>.
\<close>

definition login_try :: "env \<Rightarrow> bcryptjs \<Rightarrow> db \<Rightarrow> request \<Rightarrow> exn + response" where
  "login_try ev bc d req =
     (let nm = field req ''name''; p = field req ''players'' in
      bindE (read_var (TDZ :: teamval slot)) (\<lambda>team0.
      bindE (Model_findOne team0 d nm) (\<lambda>team1.
        if \<not> truthy team1 then Inr (Response 400 (Errors [''Invalid team name'']))
        else
          bindE (read_var (Undeclared :: teamval slot)) (\<lambda>user.
          bindE (get_players user) (\<lambda>h.
          bindE (compare_call bc p h) (\<lambda>match.
            if \<not> match then Inr (Response 400 (Errors [''Invalid number of players'']))
            else returnToken ev user))))))"

definition login_handler :: "env \<Rightarrow> bcryptjs \<Rightarrow> db \<Rightarrow> string list \<Rightarrow> request \<Rightarrow> response" where
  "login_handler ev bc d errors req =
     (if errors \<noteq> [] then Response 422 (Errors errors)
      else (case login_try ev bc d req of
              Inl e \<Rightarrow> Response 500 (Text ''Server error'')
            | Inr r \<Rightarrow> r))"

text \<open>
  A route is its checks, built when the module is loaded, and its handler, which reads
  their result.
\<close>

definition post_api_team :: "env \<Rightarrow> bcryptjs \<Rightarrow> db \<Rightarrow> request \<Rightarrow> exn + response \<times> db" where
  "post_api_team ev bc d req =
     bindE (build_checks team_checks) (\<lambda>cs.
       Inr (register_handler ev bc d (validationResult cs req) req))"

definition post_api_registration :: "env \<Rightarrow> bcryptjs \<Rightarrow> db \<Rightarrow> request \<Rightarrow> exn + response" where
  "post_api_registration ev bc d req =
     bindE (build_checks registration_checks) (\<lambda>cs.
       Inr (login_handler ev bc d (validationResult cs req) req))"

section \<open>Example stores and requests\<close>

text \<open>A store of two posts, owned by two teams, and requests against it.\<close>

definition post_a :: post where
  "post_a = \<lparr>post_id = ''p1'', team = ''reds'', title = ''t'', body = ''b'', date = 10\<rparr>"

definition post_b :: post where
  "post_b = \<lparr>post_id = ''p2'', team = ''blues'', title = ''u'', body = ''c'', date = 20\<rparr>"

definition db0 :: db where
  "db0 = \<lparr>posts = [post_a, post_b], teams = [], connected = True\<rparr>"

definition req_of :: "string \<Rightarrow> string \<Rightarrow> (string \<times> string) list \<Rightarrow> request" where
  "req_of who pid flds = \<lparr>req_team_id = who, req_params_id = pid, req_body = flds\<rparr>"

definition body_only :: request where
  "body_only = req_of ''reds'' ''p1'' [(''body'', ''new'')]"

text \<open>
  An environment with a signing key; the imported model has no \<^verbatim>\<open>id\<close> property. Two team
  documents, and the registration of the Reds with 13 players.
\<close>

definition env0 :: env where
  "env0 = \<lparr>jwtSecret = Some ''s3cret'', now = 1700000000, genSalt = ''salt'', new_id = ''t9'',
           model_id = None\<rparr>"

definition reds :: team_doc where
  "reds = \<lparr>team_id = ''t1'', name = ''Reds'', city = ''Milwaukee'', players = ''hash-of-13''\<rparr>"

definition blues :: team_doc where
  "blues = \<lparr>team_id = ''t2'', name = ''Blues'', city = ''Madison'', players = ''hash-of-15''\<rparr>"

definition reds_request :: request where
  "reds_request =
     req_of [] [] [(''name'', ''Reds''), (''city'', ''Milwaukee''), (''players'', ''13'')]"

section \<open>Lookups in a store with unique ids\<close>

lemma find_unique:
  "distinct (map f xs) \<Longrightarrow> p \<in> set xs \<Longrightarrow> find (\<lambda>q. f q = f p) xs = Some p"
proof (induction xs)
  case Nil
  then show ?case by simp
next
  case (Cons x xs)
  then show ?case by (cases "x = p") force+
qed

lemma find_SomeD: "find P xs = Some p \<Longrightarrow> p \<in> set xs \<and> P p"
  by (induction xs) (auto split: if_splits)

lemma found_in_store:
  "Post_findById d i = Inr (Some p) \<Longrightarrow> p \<in> set (posts d) \<and> post_id p = i"
  by (auto simp: Post_findById_def split: if_splits dest: find_SomeD)

lemma stored_is_found:
  "connected d \<Longrightarrow> unique_ids d \<Longrightarrow> p \<in> set (posts d) \<Longrightarrow>
     Post_findById d (post_id p) = Inr (Some p)"
  by (simp add: Post_findById_def unique_ids_def find_unique)

lemma find_p1: "Post_findById db0 ''p1'' = Inr (Some post_a)"
  by (simp add: Post_findById_def db0_def post_a_def)

lemma find_p9: "Post_findById db0 ''p9'' = Inr None"
  by (simp add: Post_findById_def db0_def post_a_def post_b_def)

lemma unique_ids_db0: "unique_ids db0"
  by (simp add: unique_ids_def db0_def post_a_def post_b_def)

section \<open>Ownership and not-found checks of post deletion and update\<close>

lemma delete_not_found:
  "Post_findById d (req_params_id req) = Inr None \<Longrightarrow>
     delete_handler d req = (Response 404 (Msg ''Post not found''), d)"
  by (simp add: delete_handler_def)

lemma update_not_found:
  "Post_findById d (req_params_id req) = Inr None \<Longrightarrow>
     update_handler d req = (Response 404 (Msg ''Post not found''), d)"
  by (simp add: update_handler_def)

lemma delete_not_owner:
  "Post_findById d (req_params_id req) = Inr (Some p) \<Longrightarrow> team p \<noteq> req_team_id req \<Longrightarrow>
     delete_handler d req = (Response 401 (Msg ''team not authorized''), d)"
  by (simp add: delete_handler_def)

lemma update_not_owner:
  "Post_findById d (req_params_id req) = Inr (Some p) \<Longrightarrow> team p \<noteq> req_team_id req \<Longrightarrow>
     update_handler d req = (Response 401 (Msg ''User not authorized''), d)"
  by (simp add: update_handler_def)

lemma delete_by_owner:
  "Post_findById d (req_params_id req) = Inr (Some p) \<Longrightarrow> team p = req_team_id req \<Longrightarrow>
     delete_handler d req =
       (Response 200 (Msg ''Post removed''),
        d\<lparr>posts := filter (\<lambda>q. post_id q \<noteq> post_id p) (posts d)\<rparr>)"
  by (auto simp: delete_handler_def post_remove_def Post_findById_def split: if_splits)

lemma delete_401_only_if:
  "status (fst (delete_handler d req)) = Some 401 \<Longrightarrow>
     \<exists>p. Post_findById d (req_params_id req) = Inr (Some p) \<and> team p \<noteq> req_team_id req"
  by (auto simp: delete_handler_def post_remove_def split: sum.splits option.splits if_splits)

lemma update_401_only_if:
  "status (fst (update_handler d req)) = Some 401 \<Longrightarrow>
     \<exists>p. Post_findById d (req_params_id req) = Inr (Some p) \<and> team p \<noteq> req_team_id req"
  by (auto simp: update_handler_def post_save_def Let_def
      split: sum.splits option.splits if_splits)

text \<open>
  C1. A deletion or update request that carries an identity fails with 404
  \<^verbatim>\<open>{msg: 'Post not found'}\<close> when the post id does not resolve, and with 401 when the
  post exists and the identity's id differs from the post's owner; the 401 of the
  deletion carries \<^verbatim>\<open>{msg: 'team not authorized'}\<close>, that of the update
  \<^verbatim>\<open>{msg: 'User not authorized'}\<close>. The store is left as it was.
\<close>

theorem post_mutation_rejections:
  "(Post_findById d (req_params_id req) = Inr None \<longrightarrow>
      delete_handler d req = (Response 404 (Msg ''Post not found''), d) \<and>
      update_handler d req = (Response 404 (Msg ''Post not found''), d)) \<and>
   (Post_findById d (req_params_id req) = Inr (Some p) \<and> team p \<noteq> req_team_id req \<longrightarrow>
      delete_handler d req = (Response 401 (Msg ''team not authorized''), d) \<and>
      update_handler d req = (Response 401 (Msg ''User not authorized''), d))"
  by (simp add: delete_not_found update_not_found delete_not_owner update_not_owner)

theorem post_mutation_rejections_witness:
  "Post_findById db0 (req_params_id (req_of ''blues'' ''p9'' [])) = Inr None \<and>
   delete_handler db0 (req_of ''blues'' ''p9'' []) = (Response 404 (Msg ''Post not found''), db0) \<and>
   update_handler db0 (req_of ''blues'' ''p9'' []) = (Response 404 (Msg ''Post not found''), db0) \<and>
   Post_findById db0 (req_params_id (req_of ''blues'' ''p1'' [])) = Inr (Some post_a) \<and>
   team post_a \<noteq> req_team_id (req_of ''blues'' ''p1'' []) \<and>
   delete_handler db0 (req_of ''blues'' ''p1'' []) = (Response 401 (Msg ''team not authorized''), db0) \<and>
   update_handler db0 (req_of ''blues'' ''p1'' []) = (Response 401 (Msg ''User not authorized''), db0)"
proof -
  have n: "Post_findById db0 (req_params_id (req_of ''blues'' ''p9'' [])) = Inr None"
    by (simp add: req_of_def find_p9)
  have f: "Post_findById db0 (req_params_id (req_of ''blues'' ''p1'' [])) = Inr (Some post_a)"
    by (simp add: req_of_def find_p1)
  have o: "team post_a \<noteq> req_team_id (req_of ''blues'' ''p1'' [])"
    by (simp add: req_of_def post_a_def)
  show ?thesis
    using n f o
      post_mutation_rejections [of db0 "req_of ''blues'' ''p9'' []" post_a]
      post_mutation_rejections [of db0 "req_of ''blues'' ''p1'' []" post_a]
    by simp
qed

section \<open>Registration and login\<close>

lemma register_try_throws: "register_try ev bc d req = Inl (ReferenceError, d)"
  by (simp add: register_try_def bindE_def thrown_in_def)

lemma register_handler_answer:
  "register_handler ev bc d errs req =
     (if errs \<noteq> [] then Response 422 (Errors errs) else Response 500 (Text ''Server error''), d)"
  by (simp add: register_handler_def register_try_throws)

lemma login_try_throws: "login_try ev bc d req = Inl ReferenceError"
  by (simp add: login_try_def bindE_def)

lemma team_checks_throw: "build_checks team_checks = Inl TypeError"
  by (simp add: team_checks_def name_check_def city_check_def players_check_def bindE_def)

lemma registration_checks_throw: "build_checks registration_checks = Inl TypeError"
  by (simp add: registration_checks_def bindE_def)

text \<open>
  C2. The claim: the first registration of a name creates the credential and the
  identity and returns a token, the second fails with a conflict. The handler does
  neither: whatever the store, the request and the environment, a registration that
  passed validation is answered 500 \<^verbatim>\<open>Server error\<close> and leaves the store as it was,
  so the second attempt meets the same store and the same answer.
\<close>

theorem register_twice_server_error:
  "register_handler ev bc d [] req = (Response 500 (Text ''Server error''), d) \<and>
   register_handler ev bc (snd (register_handler ev bc d [] req)) [] req =
     (Response 500 (Text ''Server error''), d)"
  by (simp add: register_handler_answer)

text \<open>
  C3. The claim: a login with an unknown name or a wrong secret is rejected with 400,
  and a token is issued when name and secret match. The handler answers every login
  that passed validation with 500 \<^verbatim>\<open>Server error\<close>, and the checks of the route cannot
  be built.
\<close>

theorem login_server_error:
  "login_handler ev bc d [] req = Response 500 (Text ''Server error'') \<and>
   post_api_registration ev bc d req = Inl TypeError"
  by (simp add: login_handler_def login_try_throws post_api_registration_def
      registration_checks_throw bindE_def)

text \<open>
  C4. The claim: registering the Reds with 13 players passes validation and returns 200
  with a token. On the code the checks of the route cannot be built (\<^verbatim>\<open>isCity\<close>); without
  the city check, the players check fails, since \<^verbatim>\<open>isLength({min: 13})\<close> reads the length
  of \<^verbatim>\<open>'13'\<close>, and the answer is 422; and whatever the validation says, the handler
  answers 422 or 500.
\<close>

theorem reds_registration_rejected:
  "build_checks team_checks = Inl TypeError \<and>
   post_api_team ev bc d reds_request = Inl TypeError \<and>
   (\<exists>cs. build_checks [name_check, players_check] = Inr cs \<and>
      validationResult cs reds_request =
        [''Please enter number of players, must be at least 13''] \<and>
      register_handler ev bc d (validationResult cs reds_request) reds_request =
        (Response 422 (Errors [''Please enter number of players, must be at least 13'']), d)) \<and>
   (\<forall>errs. fst (register_handler ev bc d errs reds_request)
      \<in> {Response 422 (Errors errs), Response 500 (Text ''Server error'')})"
proof -
  have b: "build_checks [name_check, players_check] =
      Inr [(''name'', ''Please enter your name of soccer team'', [(True, IsEmpty)]),
           (''players'', ''Please enter number of players, must be at least 13'',
            [(False, IsLength 13)])]"
    by (simp add: name_check_def players_check_def bindE_def)
  have v: "validationResult
      [(''name'', ''Please enter your name of soccer team'', [(True, IsEmpty)]),
       (''players'', ''Please enter number of players, must be at least 13'',
        [(False, IsLength 13)])] reds_request =
      [''Please enter number of players, must be at least 13'']"
    by (simp add: validationResult_def reds_request_def req_of_def field_def passes_def
        to_str_def)
  have r: "\<forall>errs. fst (register_handler ev bc d errs reds_request)
      \<in> {Response 422 (Errors errs), Response 500 (Text ''Server error'')}"
    by (simp add: register_handler_answer)
  have p: "post_api_team ev bc d reds_request = Inl TypeError"
    by (simp add: post_api_team_def team_checks_throw bindE_def)
  show ?thesis
    using b v r p team_checks_throw by (simp add: register_handler_answer)
qed

section \<open>Issued tokens\<close>

lemma ms_10hr: "ms ''10hr'' = Some 36000000"
  by (simp add: ms_def is_digit_def ms_unit_def number_of_def digit_val_def)

lemma returnToken_with_key:
  "jwtSecret ev = Some k \<Longrightarrow> k \<noteq> [] \<Longrightarrow>
     returnToken ev u =
       Inr (Response 200 (TokenBody
         \<lparr>tok_payload = \<lparr>payload_team_id = model_id ev\<rparr>, tok_iat = now ev,
          tok_exp = now ev + 36000, tok_key = k\<rparr>))"
  by (simp add: returnToken_def bindE_def config_get_def jwt_sign_def ms_10hr)

lemma returnToken_token:
  "returnToken ev u = Inr (Response n (TokenBody tk)) \<Longrightarrow>
     tk = \<lparr>tok_payload = \<lparr>payload_team_id = model_id ev\<rparr>, tok_iat = now ev,
           tok_exp = now ev + 36000, tok_key = tok_key tk\<rparr>"
  by (auto simp: returnToken_def bindE_def config_get_def jwt_sign_def ms_10hr
      split: option.splits if_splits)

lemma returnToken_any_user: "returnToken ev u = returnToken ev u'"
  by (simp add: returnToken_def)

text \<open>
  C6. The claim: verifying a token right after it was issued returns the identity it was
  issued for. \<^verbatim>\<open>returnToken\<close> does not read its argument: the tokens issued for the Reds
  and for the Blues are the same token, and verifying it returns the \<^verbatim>\<open>id\<close> property of
  the imported model, here \<^verbatim>\<open>undefined\<close>, not the id of the team.
\<close>

theorem returnToken_identity_not_the_user:
  "(\<forall>ev u u'. returnToken ev u = returnToken ev u') \<and>
   (\<exists>tk. returnToken env0 (TeamDoc reds) = Inr (Response 200 (TokenBody tk)) \<and>
      returnToken env0 (TeamDoc blues) = Inr (Response 200 (TokenBody tk)) \<and>
      jwt_verify tk ''s3cret'' (now env0) = Inr \<lparr>payload_team_id = None\<rparr>) \<and>
   team_id reds = ''t1'' \<and> team_id blues = ''t2''"
proof -
  have k: "jwtSecret env0 = Some ''s3cret''" and m: "model_id env0 = None"
    by (simp_all add: env0_def)
  have "returnToken env0 u =
      Inr (Response 200 (TokenBody
        \<lparr>tok_payload = \<lparr>payload_team_id = None\<rparr>, tok_iat = now env0,
         tok_exp = now env0 + 36000, tok_key = ''s3cret''\<rparr>))" for u
    using returnToken_with_key [OF k, of u] m by simp
  moreover have "jwt_verify
      \<lparr>tok_payload = \<lparr>payload_team_id = None\<rparr>, tok_iat = now env0,
       tok_exp = now env0 + 36000, tok_key = ''s3cret''\<rparr> ''s3cret'' (now env0) =
      Inr \<lparr>payload_team_id = None\<rparr>"
    by (simp add: jwt_verify_def)
  ultimately show ?thesis
    using returnToken_any_user by (simp add: reds_def blues_def)
qed

text \<open>
  C7. Every token \<^verbatim>\<open>returnToken\<close> issues carries the time of issue and an expiry ten
  hours later, in seconds; and with a signing key configured it does issue one.
\<close>

theorem issued_token_expiry:
  "(returnToken ev user = Inr (Response n (TokenBody tk)) \<longrightarrow>
      tok_iat tk = now ev \<and> tok_exp tk = now ev + 10 * 60 * 60) \<and>
   (jwtSecret ev = Some k \<and> k \<noteq> [] \<longrightarrow>
      (\<exists>tk'. returnToken ev user = Inr (Response 200 (TokenBody tk')) \<and>
         tok_exp tk' = tok_iat tk' + 10 * 60 * 60))"
proof (intro conjI impI)
  assume a: "returnToken ev user = Inr (Response n (TokenBody tk))"
  from returnToken_token [OF a] have "tok_iat tk = now ev" and "tok_exp tk = now ev + 36000"
    by (metis token.select_convs(2), metis token.select_convs(3))
  then show "tok_iat tk = now ev" and "tok_exp tk = now ev + 10 * 60 * 60"
    by simp_all
next
  assume "jwtSecret ev = Some k \<and> k \<noteq> []"
  then show "\<exists>tk'. returnToken ev user = Inr (Response 200 (TokenBody tk')) \<and>
      tok_exp tk' = tok_iat tk' + 10 * 60 * 60"
    by (simp add: returnToken_with_key)
qed

theorem issued_token_expiry_witness:
  "jwtSecret env0 = Some ''s3cret'' \<and> ''s3cret'' \<noteq> [] \<and>
   (\<exists>tk. returnToken env0 (TeamDoc reds) = Inr (Response 200 (TokenBody tk)) \<and>
      tok_iat tk = 1700000000 \<and> tok_exp tk = 1700036000)"
proof -
  have k: "jwtSecret env0 = Some ''s3cret'' \<and> ''s3cret'' \<noteq> []"
    by (simp add: env0_def)
  from issued_token_expiry [of env0 "TeamDoc reds" _ _ "''s3cret''"] k
  obtain tk where t: "returnToken env0 (TeamDoc reds) = Inr (Response 200 (TokenBody tk))"
    by blast
  from issued_token_expiry [of env0 "TeamDoc reds" 200 tk] t
  have "tok_iat tk = now env0 \<and> tok_exp tk = now env0 + 10 * 60 * 60"
    by blast
  with k t show ?thesis by (auto simp: env0_def)
qed

section \<open>What an update leaves alone\<close>

lemma write_back_frame:
  assumes "distinct (map post_id xs)" and "p \<in> set xs"
    and "post_id p' = post_id p" and "g p' = g p"
  shows "map g (map (\<lambda>q. if post_id q = post_id p' then p' else q) xs) = map g xs"
proof -
  have "g (if post_id q = post_id p' then p' else q) = g q" if "q \<in> set xs" for q
  proof (cases "post_id q = post_id p'")
    case True
    with assms that have "q = p"
      by (metis distinct_map inj_onD)
    with True assms show ?thesis by simp
  next
    case False
    then show ?thesis by simp
  qed
  then show ?thesis by simp
qed

lemma update_cases:
  assumes "update_handler d req = (res, d')"
  shows "(d' = d \<and> (\<forall>p'. res \<noteq> Response 200 (PostBody p'))) \<or>
    (\<exists>p. Post_findById d (req_params_id req) = Inr (Some p) \<and> team p = req_team_id req \<and>
       res = Response 200 (PostBody (p\<lparr>title := js_or (field req ''title'') (title p),
                                      body := js_or (field req ''body'') (body p)\<rparr>)) \<and>
       d' = d\<lparr>posts := map (\<lambda>q. if post_id q = post_id p
                                then p\<lparr>title := js_or (field req ''title'') (title p),
                                       body := js_or (field req ''body'') (body p)\<rparr>
                                else q) (posts d)\<rparr>)"
  using assms
  by (auto simp: update_handler_def post_save_def Let_def
      split: sum.splits option.splits if_splits)

lemma update_db0:
  "update_handler db0 body_only =
     (Response 200 (PostBody (post_a\<lparr>body := ''new''\<rparr>)),
      db0\<lparr>posts := [post_a\<lparr>body := ''new''\<rparr>, post_b]\<rparr>)"
  by (simp add: update_handler_def body_only_def req_of_def find_p1 post_save_def js_or_def
      field_def Let_def)
    (simp add: db0_def post_a_def post_b_def)

text \<open>
  C8. An update request whose body has no title leaves the title of every stored post
  as it was, and likewise for the body field; the id, the owner and the date of every
  post and the team records are never changed. The post that a successful update sends
  is the stored one with \<^verbatim>\<open>title || post.title\<close> and \<^verbatim>\<open>body || post.body\<close>.
\<close>

theorem update_frame:
  assumes "unique_ids d" and "update_handler d req = (res, d')"
  shows "map post_id (posts d') = map post_id (posts d) \<and>
         map team (posts d') = map team (posts d) \<and>
         map date (posts d') = map date (posts d) \<and>
         teams d' = teams d \<and>
         (field req ''title'' = None \<longrightarrow> map title (posts d') = map title (posts d)) \<and>
         (field req ''body'' = None \<longrightarrow> map body (posts d') = map body (posts d)) \<and>
         (\<forall>p'. res = Response 200 (PostBody p') \<longrightarrow>
            (\<exists>p. Post_findById d (req_params_id req) = Inr (Some p) \<and>
                 post_id p' = post_id p \<and> team p' = team p \<and> date p' = date p \<and>
                 title p' = js_or (field req ''title'') (title p) \<and>
                 body p' = js_or (field req ''body'') (body p) \<and>
                 (field req ''title'' = None \<longrightarrow> title p' = title p) \<and>
                 (field req ''body'' = None \<longrightarrow> body p' = body p)))"
proof -
  from update_cases [OF assms(2)] show ?thesis
  proof (elim disjE exE conjE)
    assume "d' = d" and "\<forall>p'. res \<noteq> Response 200 (PostBody p')"
    then show ?thesis by simp
  next
    fix p :: post
    let ?p' = "p\<lparr>title := js_or (field req ''title'') (title p),
                 body := js_or (field req ''body'') (body p)\<rparr>"
    assume f: "Post_findById d (req_params_id req) = Inr (Some p)"
      and r: "res = Response 200 (PostBody ?p')"
      and d': "d' = d\<lparr>posts := map (\<lambda>q. if post_id q = post_id p then ?p' else q) (posts d)\<rparr>"
    from f have mem: "p \<in> set (posts d)" by (simp add: found_in_store)
    from assms(1) have dist: "distinct (map post_id (posts d))" by (simp add: unique_ids_def)
    have fr: "g ?p' = g p \<Longrightarrow> map g (posts d') = map g (posts d)" for g :: "post \<Rightarrow> string"
      using write_back_frame [OF dist mem, of ?p' g] d' by simp
    have fri: "map date (posts d') = map date (posts d)"
      using write_back_frame [OF dist mem, of ?p' date] d' by simp
    have "map post_id (posts d') = map post_id (posts d)" by (rule fr) simp
    moreover have "map team (posts d') = map team (posts d)" by (rule fr) simp
    moreover have "teams d' = teams d" using d' by simp
    moreover have "field req ''title'' = None \<longrightarrow> map title (posts d') = map title (posts d)"
      by (auto intro: fr simp: js_or_def)
    moreover have "field req ''body'' = None \<longrightarrow> map body (posts d') = map body (posts d)"
      by (auto intro: fr simp: js_or_def)
    ultimately show ?thesis using fri f r by (auto simp: js_or_def)
  qed
qed

theorem update_frame_witness:
  "unique_ids db0 \<and>
   update_handler db0 body_only =
     (Response 200 (PostBody (post_a\<lparr>body := ''new''\<rparr>)),
      db0\<lparr>posts := [post_a\<lparr>body := ''new''\<rparr>, post_b]\<rparr>) \<and>
   field body_only ''title'' = None \<and>
   map title [post_a\<lparr>body := ''new''\<rparr>, post_b] = map title (posts db0) \<and>
   map team [post_a\<lparr>body := ''new''\<rparr>, post_b] = map team (posts db0) \<and>
   map date [post_a\<lparr>body := ''new''\<rparr>, post_b] = map date (posts db0) \<and>
   map post_id [post_a\<lparr>body := ''new''\<rparr>, post_b] = map post_id (posts db0)"
proof -
  have t: "field body_only ''title'' = None"
    by (simp add: field_def body_only_def req_of_def)
  show ?thesis
    using unique_ids_db0 update_db0 t update_frame [OF unique_ids_db0 update_db0] by simp
qed

section \<open>The order of the checks\<close>

text \<open>
  C9. In deletion and update the lookup comes first: a request for a post id that does
  not resolve is answered 404 whoever sends it and whatever its body, and a 401 is sent
  only for a post that exists and belongs to another team.
\<close>

theorem not_found_precedes_ownership:
  "(Post_findById d pid = Inr None \<longrightarrow>
      delete_handler d (req_of who pid flds) = (Response 404 (Msg ''Post not found''), d) \<and>
      update_handler d (req_of who pid flds) = (Response 404 (Msg ''Post not found''), d)) \<and>
   (status (fst (delete_handler d req)) = Some 401 \<longrightarrow>
      (\<exists>p. Post_findById d (req_params_id req) = Inr (Some p) \<and> team p \<noteq> req_team_id req)) \<and>
   (status (fst (update_handler d req)) = Some 401 \<longrightarrow>
      (\<exists>p. Post_findById d (req_params_id req) = Inr (Some p) \<and> team p \<noteq> req_team_id req))"
proof (intro conjI impI)
  assume n: "Post_findById d pid = Inr None"
  then show "delete_handler d (req_of who pid flds) = (Response 404 (Msg ''Post not found''), d)"
    by (simp add: delete_not_found req_of_def)
  from n show "update_handler d (req_of who pid flds) = (Response 404 (Msg ''Post not found''), d)"
    by (simp add: update_not_found req_of_def)
next
  assume "status (fst (delete_handler d req)) = Some 401"
  then show "\<exists>p. Post_findById d (req_params_id req) = Inr (Some p) \<and> team p \<noteq> req_team_id req"
    by (rule delete_401_only_if)
next
  assume "status (fst (update_handler d req)) = Some 401"
  then show "\<exists>p. Post_findById d (req_params_id req) = Inr (Some p) \<and> team p \<noteq> req_team_id req"
    by (rule update_401_only_if)
qed

theorem not_found_precedes_ownership_witness:
  "Post_findById db0 ''p9'' = Inr None \<and>
   delete_handler db0 (req_of ''reds'' ''p9'' [(''title'', ''x'')]) =
     (Response 404 (Msg ''Post not found''), db0) \<and>
   update_handler db0 (req_of ''reds'' ''p9'' [(''title'', ''x'')]) =
     (Response 404 (Msg ''Post not found''), db0) \<and>
   status (fst (delete_handler db0 (req_of ''blues'' ''p1'' []))) = Some 401 \<and>
   status (fst (update_handler db0 (req_of ''blues'' ''p1'' []))) = Some 401 \<and>
   (\<exists>p. Post_findById db0 (req_params_id (req_of ''blues'' ''p1'' [])) = Inr (Some p) \<and>
      team p \<noteq> req_team_id (req_of ''blues'' ''p1'' []))"
proof -
  have f: "Post_findById db0 (req_params_id (req_of ''blues'' ''p1'' [])) = Inr (Some post_a)"
    by (simp add: req_of_def find_p1)
  have o: "team post_a \<noteq> req_team_id (req_of ''blues'' ''p1'' [])"
    by (simp add: req_of_def post_a_def)
  have s: "status (fst (delete_handler db0 (req_of ''blues'' ''p1'' []))) = Some 401"
    by (simp add: delete_not_owner [OF f o])
  have s': "status (fst (update_handler db0 (req_of ''blues'' ''p1'' []))) = Some 401"
    by (simp add: update_not_owner [OF f o])
  show ?thesis
    using find_p9 s s'
      not_found_precedes_ownership
        [of db0 "''p9''" "''reds''" "[(''title'', ''x'')]" "req_of ''blues'' ''p1'' []"]
    by simp
qed

section \<open>Reading posts\<close>

lemma latest_first: "sorted_wrt (\<ge>) (map date (rev (sort_key date xs)))"
proof -
  have "sorted (map date (sort_key date xs))" by simp
  then show ?thesis by (simp add: sorted_wrt_rev rev_map [symmetric] sorted_wrt_map)
qed

text \<open>
  C10. The two reads make no ownership check. With the store answering, whoever sends
  the request, \<^verbatim>\<open>GET /api/posts\<close> sends every stored post, latest date first, and
  \<^verbatim>\<open>GET /api/posts/:id\<close> sends the stored post of that id, whichever team owns it.
\<close>

theorem reads_ignore_ownership:
  assumes "connected d" and "unique_ids d"
  shows "(\<exists>ps. get_posts_handler d (req_of who pid flds) = Response 200 (PostsBody ps) \<and>
            mset ps = mset (posts d) \<and> sorted_wrt (\<ge>) (map date ps)) \<and>
         (\<forall>p \<in> set (posts d).
            get_post_handler d (req_of who (post_id p) flds) = Response 200 (PostBody p))"
proof
  show "\<exists>ps. get_posts_handler d (req_of who pid flds) = Response 200 (PostsBody ps) \<and>
      mset ps = mset (posts d) \<and> sorted_wrt (\<ge>) (map date ps)"
    using assms(1) by (simp add: get_posts_handler_def Post_find_sort_date_desc_def latest_first)
next
  show "\<forall>p \<in> set (posts d).
      get_post_handler d (req_of who (post_id p) flds) = Response 200 (PostBody p)"
    using assms by (simp add: get_post_handler_def req_of_def stored_is_found)
qed

theorem reads_ignore_ownership_witness:
  "connected db0 \<and> unique_ids db0 \<and>
   get_posts_handler db0 (req_of ''blues'' [] []) = Response 200 (PostsBody [post_b, post_a]) \<and>
   get_post_handler db0 (req_of ''blues'' ''p1'' []) = Response 200 (PostBody post_a) \<and>
   team post_a = ''reds''"
proof -
  have c: "connected db0" by (simp add: db0_def)
  have l: "get_posts_handler db0 (req_of ''blues'' [] []) = Response 200 (PostsBody [post_b, post_a])"
    by (simp add: get_posts_handler_def Post_find_sort_date_desc_def db0_def post_a_def
        post_b_def)
  have m: "post_a \<in> set (posts db0)" and i: "post_id post_a = ''p1''"
    by (simp_all add: db0_def post_a_def)
  from reads_ignore_ownership [OF c unique_ids_db0, of "''blues''" "[]" "[]"] m i
  have "get_post_handler db0 (req_of ''blues'' ''p1'' []) = Response 200 (PostBody post_a)"
    by fastforce
  with c l unique_ids_db0 show ?thesis by (simp add: post_a_def)
qed

end
